theory Spec2Isabelle
  imports Complex_Main
begin

section \<open>JSON request data as Python values\<close>

text \<open>
  \<^verbatim>\<open>request.get_json()\<close> hands the handlers what \<^verbatim>\<open>json.loads\<close> builds: \<^verbatim>\<open>None\<close>,
  \<^verbatim>\<open>bool\<close>, \<^verbatim>\<open>int\<close>, \<^verbatim>\<open>float\<close>, \<^verbatim>\<open>str\<close>, \<^verbatim>\<open>list\<close> and \<^verbatim>\<open>dict\<close> with string keys.
  A string is its UTF-8 byte sequence (a lone surrogate as its three bytes). A dict is
  the list of its items in insertion order (the parser leaves no duplicate key). A float
  is carried by the text that \<^verbatim>\<open>str()\<close> prints for it: the handlers only format it
  and test it for zero.
\<close>

datatype json =
    JNull
  | JBool bool
  | JInt int
  | JFloat string
  | JStr string
  | JArr "json list"
  | JObj "(string \<times> json) list"

datatype py_exception =
    BadRequest string
  | KeyError string
  | TypeError
  | AttributeError
  | ClientError string

text \<open>
  \<^verbatim>\<open>BadRequest\<close> is werkzeug's HTTP 400 exception with its description, \<^verbatim>\<open>KeyError\<close>
  carries the missing key, and \<^verbatim>\<open>ClientError\<close> stands for whatever the model client
  raises, with its message. All of them are subclasses of \<^verbatim>\<open>Exception\<close>.
\<close>

subsection \<open>Formatting: \<^verbatim>\<open>str()\<close> and \<^verbatim>\<open>repr()\<close>\<close>

definition digit_char :: "nat \<Rightarrow> char" where
  "digit_char d = ''0123456789abcdef'' ! d"

fun digits :: "nat \<Rightarrow> string" where
  "digits n = (if n < 10 then [digit_char n] else digits (n div 10) @ [digit_char (n mod 10)])"

definition int_str :: "int \<Rightarrow> string" where
  "int_str i = (if i < 0 then CHR ''-'' # digits (nat (- i)) else digits (nat i))"

text \<open>
  \<^verbatim>\<open>repr()\<close> of a string: double quotes when the text has a single quote and no double
  quote, single quotes otherwise. The delimiter and the backslash are escaped, and so is
  every character that \<^verbatim>\<open>str.isprintable\<close> refuses: an ASCII control character as
  \<^verbatim>\<open>\t\<close>, \<^verbatim>\<open>\n\<close>, \<^verbatim>\<open>\r\<close> or \<^verbatim>\<open>\xhh\<close>, a character above U+007F as \<^verbatim>\<open>\xhh\<close>,
  \<^verbatim>\<open>\uhhhh\<close> or \<^verbatim>\<open>\Uhhhhhhhh\<close> by the size of its code point. Every other character
  is copied.
\<close>

definition repr_quote :: "string \<Rightarrow> char" where
  "repr_quote s = (if CHR 0x27 \<in> set s \<and> CHR 0x22 \<notin> set s then CHR 0x22 else CHR 0x27)"

fun hex :: "nat \<Rightarrow> nat \<Rightarrow> string" where
  "hex 0 n = []"
| "hex (Suc k) n = hex k (n div 16) @ [digit_char (n mod 16)]"

text \<open>An ASCII character, between the delimiters \<open>q\<close>.\<close>

definition repr_char :: "char \<Rightarrow> char \<Rightarrow> string" where
  "repr_char q c =
     (if c = q \<or> c = CHR 0x5C then [CHR 0x5C, c]
      else if c = CHR 0x09 then [CHR 0x5C, CHR ''t'']
      else if c = CHR 0x0A then [CHR 0x5C, CHR ''n'']
      else if c = CHR 0x0D then [CHR 0x5C, CHR ''r'']
      else if (of_char c :: nat) < 32 \<or> (of_char c :: nat) = 127
        then [CHR 0x5C, CHR ''x''] @ hex 2 (of_char c)
      else [c])"

text \<open>
  A character above U+007F is two to four bytes of the string: the first byte gives their
  number, and together they give the code point.
\<close>

definition utf8_width :: "char \<Rightarrow> nat" where
  "utf8_width c =
     (if (of_char c :: nat) < 0xC0 then 1
      else if (of_char c :: nat) < 0xE0 then 2
      else if (of_char c :: nat) < 0xF0 then 3
      else 4)"

fun code_point :: "string \<Rightarrow> nat" where
  "code_point [a] = of_char a"
| "code_point [a, b] = (of_char a mod 32) * 64 + of_char b mod 64"
| "code_point [a, b, c] =
     (of_char a mod 16) * 4096 + (of_char b mod 64) * 64 + of_char c mod 64"
| "code_point [a, b, c, d] =
     (of_char a mod 8) * 262144 + (of_char b mod 64) * 4096 + (of_char c mod 64) * 64 +
     of_char d mod 64"
| "code_point cs = 0"

text \<open>
  The code points above U+007F that \<^verbatim>\<open>str.isprintable\<close> refuses, as inclusive ranges:
  the control, format, surrogate, private-use and unassigned characters and the
  separators, in the Unicode character database 14.0 of CPython 3.11.
\<close>

definition unprintable :: "(nat \<times> nat) list" where
  "unprintable =
    [(0x80, 0xA0), (0xAD, 0xAD), (0x378, 0x379), (0x380, 0x383), (0x38B, 0x38B), (0x38D, 0x38D),
     (0x3A2, 0x3A2), (0x530, 0x530), (0x557, 0x558), (0x58B, 0x58C), (0x590, 0x590),
     (0x5C8, 0x5CF), (0x5EB, 0x5EE), (0x5F5, 0x605), (0x61C, 0x61C), (0x6DD, 0x6DD),
     (0x70E, 0x70F), (0x74B, 0x74C), (0x7B2, 0x7BF), (0x7FB, 0x7FC), (0x82E, 0x82F),
     (0x83F, 0x83F), (0x85C, 0x85D), (0x85F, 0x85F), (0x86B, 0x86F), (0x88F, 0x897),
     (0x8E2, 0x8E2), (0x984, 0x984), (0x98D, 0x98E), (0x991, 0x992), (0x9A9, 0x9A9),
     (0x9B1, 0x9B1), (0x9B3, 0x9B5), (0x9BA, 0x9BB), (0x9C5, 0x9C6), (0x9C9, 0x9CA),
     (0x9CF, 0x9D6), (0x9D8, 0x9DB), (0x9DE, 0x9DE), (0x9E4, 0x9E5), (0x9FF, 0xA00),
     (0xA04, 0xA04), (0xA0B, 0xA0E), (0xA11, 0xA12), (0xA29, 0xA29), (0xA31, 0xA31),
     (0xA34, 0xA34), (0xA37, 0xA37), (0xA3A, 0xA3B), (0xA3D, 0xA3D), (0xA43, 0xA46),
     (0xA49, 0xA4A), (0xA4E, 0xA50), (0xA52, 0xA58), (0xA5D, 0xA5D), (0xA5F, 0xA65),
     (0xA77, 0xA80), (0xA84, 0xA84), (0xA8E, 0xA8E), (0xA92, 0xA92), (0xAA9, 0xAA9),
     (0xAB1, 0xAB1), (0xAB4, 0xAB4), (0xABA, 0xABB), (0xAC6, 0xAC6), (0xACA, 0xACA),
     (0xACE, 0xACF), (0xAD1, 0xADF), (0xAE4, 0xAE5), (0xAF2, 0xAF8), (0xB00, 0xB00),
     (0xB04, 0xB04), (0xB0D, 0xB0E), (0xB11, 0xB12), (0xB29, 0xB29), (0xB31, 0xB31),
     (0xB34, 0xB34), (0xB3A, 0xB3B), (0xB45, 0xB46), (0xB49, 0xB4A), (0xB4E, 0xB54),
     (0xB58, 0xB5B), (0xB5E, 0xB5E), (0xB64, 0xB65), (0xB78, 0xB81), (0xB84, 0xB84),
     (0xB8B, 0xB8D), (0xB91, 0xB91), (0xB96, 0xB98), (0xB9B, 0xB9B), (0xB9D, 0xB9D),
     (0xBA0, 0xBA2), (0xBA5, 0xBA7), (0xBAB, 0xBAD), (0xBBA, 0xBBD), (0xBC3, 0xBC5),
     (0xBC9, 0xBC9), (0xBCE, 0xBCF), (0xBD1, 0xBD6), (0xBD8, 0xBE5), (0xBFB, 0xBFF),
     (0xC0D, 0xC0D), (0xC11, 0xC11), (0xC29, 0xC29), (0xC3A, 0xC3B), (0xC45, 0xC45),
     (0xC49, 0xC49), (0xC4E, 0xC54), (0xC57, 0xC57), (0xC5B, 0xC5C), (0xC5E, 0xC5F),
     (0xC64, 0xC65), (0xC70, 0xC76), (0xC8D, 0xC8D), (0xC91, 0xC91), (0xCA9, 0xCA9),
     (0xCB4, 0xCB4), (0xCBA, 0xCBB), (0xCC5, 0xCC5), (0xCC9, 0xCC9), (0xCCE, 0xCD4),
     (0xCD7, 0xCDC), (0xCDF, 0xCDF), (0xCE4, 0xCE5), (0xCF0, 0xCF0), (0xCF3, 0xCFF),
     (0xD0D, 0xD0D), (0xD11, 0xD11), (0xD45, 0xD45), (0xD49, 0xD49), (0xD50, 0xD53),
     (0xD64, 0xD65), (0xD80, 0xD80), (0xD84, 0xD84), (0xD97, 0xD99), (0xDB2, 0xDB2),
     (0xDBC, 0xDBC), (0xDBE, 0xDBF), (0xDC7, 0xDC9), (0xDCB, 0xDCE), (0xDD5, 0xDD5),
     (0xDD7, 0xDD7), (0xDE0, 0xDE5), (0xDF0, 0xDF1), (0xDF5, 0xE00), (0xE3B, 0xE3E),
     (0xE5C, 0xE80), (0xE83, 0xE83), (0xE85, 0xE85), (0xE8B, 0xE8B), (0xEA4, 0xEA4),
     (0xEA6, 0xEA6), (0xEBE, 0xEBF), (0xEC5, 0xEC5), (0xEC7, 0xEC7), (0xECE, 0xECF),
     (0xEDA, 0xEDB), (0xEE0, 0xEFF), (0xF48, 0xF48), (0xF6D, 0xF70), (0xF98, 0xF98),
     (0xFBD, 0xFBD), (0xFCD, 0xFCD), (0xFDB, 0xFFF), (0x10C6, 0x10C6), (0x10C8, 0x10CC),
     (0x10CE, 0x10CF), (0x1249, 0x1249), (0x124E, 0x124F), (0x1257, 0x1257), (0x1259, 0x1259),
     (0x125E, 0x125F), (0x1289, 0x1289), (0x128E, 0x128F), (0x12B1, 0x12B1), (0x12B6, 0x12B7),
     (0x12BF, 0x12BF), (0x12C1, 0x12C1), (0x12C6, 0x12C7), (0x12D7, 0x12D7), (0x1311, 0x1311),
     (0x1316, 0x1317), (0x135B, 0x135C), (0x137D, 0x137F), (0x139A, 0x139F), (0x13F6, 0x13F7),
     (0x13FE, 0x13FF), (0x1680, 0x1680), (0x169D, 0x169F), (0x16F9, 0x16FF), (0x1716, 0x171E),
     (0x1737, 0x173F), (0x1754, 0x175F), (0x176D, 0x176D), (0x1771, 0x1771), (0x1774, 0x177F),
     (0x17DE, 0x17DF), (0x17EA, 0x17EF), (0x17FA, 0x17FF), (0x180E, 0x180E), (0x181A, 0x181F),
     (0x1879, 0x187F), (0x18AB, 0x18AF), (0x18F6, 0x18FF), (0x191F, 0x191F), (0x192C, 0x192F),
     (0x193C, 0x193F), (0x1941, 0x1943), (0x196E, 0x196F), (0x1975, 0x197F), (0x19AC, 0x19AF),
     (0x19CA, 0x19CF), (0x19DB, 0x19DD), (0x1A1C, 0x1A1D), (0x1A5F, 0x1A5F), (0x1A7D, 0x1A7E),
     (0x1A8A, 0x1A8F), (0x1A9A, 0x1A9F), (0x1AAE, 0x1AAF), (0x1ACF, 0x1AFF), (0x1B4D, 0x1B4F),
     (0x1B7F, 0x1B7F), (0x1BF4, 0x1BFB), (0x1C38, 0x1C3A), (0x1C4A, 0x1C4C), (0x1C89, 0x1C8F),
     (0x1CBB, 0x1CBC), (0x1CC8, 0x1CCF), (0x1CFB, 0x1CFF), (0x1F16, 0x1F17), (0x1F1E, 0x1F1F),
     (0x1F46, 0x1F47), (0x1F4E, 0x1F4F), (0x1F58, 0x1F58), (0x1F5A, 0x1F5A), (0x1F5C, 0x1F5C),
     (0x1F5E, 0x1F5E), (0x1F7E, 0x1F7F), (0x1FB5, 0x1FB5), (0x1FC5, 0x1FC5), (0x1FD4, 0x1FD5),
     (0x1FDC, 0x1FDC), (0x1FF0, 0x1FF1), (0x1FF5, 0x1FF5), (0x1FFF, 0x200F), (0x2028, 0x202F),
     (0x205F, 0x206F), (0x2072, 0x2073), (0x208F, 0x208F), (0x209D, 0x209F), (0x20C1, 0x20CF),
     (0x20F1, 0x20FF), (0x218C, 0x218F), (0x2427, 0x243F), (0x244B, 0x245F), (0x2B74, 0x2B75),
     (0x2B96, 0x2B96), (0x2CF4, 0x2CF8), (0x2D26, 0x2D26), (0x2D28, 0x2D2C), (0x2D2E, 0x2D2F),
     (0x2D68, 0x2D6E), (0x2D71, 0x2D7E), (0x2D97, 0x2D9F), (0x2DA7, 0x2DA7), (0x2DAF, 0x2DAF),
     (0x2DB7, 0x2DB7), (0x2DBF, 0x2DBF), (0x2DC7, 0x2DC7), (0x2DCF, 0x2DCF), (0x2DD7, 0x2DD7),
     (0x2DDF, 0x2DDF), (0x2E5E, 0x2E7F), (0x2E9A, 0x2E9A), (0x2EF4, 0x2EFF), (0x2FD6, 0x2FEF),
     (0x2FFC, 0x3000), (0x3040, 0x3040), (0x3097, 0x3098), (0x3100, 0x3104), (0x3130, 0x3130),
     (0x318F, 0x318F), (0x31E4, 0x31EF), (0x321F, 0x321F), (0xA48D, 0xA48F), (0xA4C7, 0xA4CF),
     (0xA62C, 0xA63F), (0xA6F8, 0xA6FF), (0xA7CB, 0xA7CF), (0xA7D2, 0xA7D2), (0xA7D4, 0xA7D4),
     (0xA7DA, 0xA7F1), (0xA82D, 0xA82F), (0xA83A, 0xA83F), (0xA878, 0xA87F), (0xA8C6, 0xA8CD),
     (0xA8DA, 0xA8DF), (0xA954, 0xA95E), (0xA97D, 0xA97F), (0xA9CE, 0xA9CE), (0xA9DA, 0xA9DD),
     (0xA9FF, 0xA9FF), (0xAA37, 0xAA3F), (0xAA4E, 0xAA4F), (0xAA5A, 0xAA5B), (0xAAC3, 0xAADA),
     (0xAAF7, 0xAB00), (0xAB07, 0xAB08), (0xAB0F, 0xAB10), (0xAB17, 0xAB1F), (0xAB27, 0xAB27),
     (0xAB2F, 0xAB2F), (0xAB6C, 0xAB6F), (0xABEE, 0xABEF), (0xABFA, 0xABFF), (0xD7A4, 0xD7AF),
     (0xD7C7, 0xD7CA), (0xD7FC, 0xF8FF), (0xFA6E, 0xFA6F), (0xFADA, 0xFAFF), (0xFB07, 0xFB12),
     (0xFB18, 0xFB1C), (0xFB37, 0xFB37), (0xFB3D, 0xFB3D), (0xFB3F, 0xFB3F), (0xFB42, 0xFB42),
     (0xFB45, 0xFB45), (0xFBC3, 0xFBD2), (0xFD90, 0xFD91), (0xFDC8, 0xFDCE), (0xFDD0, 0xFDEF),
     (0xFE1A, 0xFE1F), (0xFE53, 0xFE53), (0xFE67, 0xFE67), (0xFE6C, 0xFE6F), (0xFE75, 0xFE75),
     (0xFEFD, 0xFF00), (0xFFBF, 0xFFC1), (0xFFC8, 0xFFC9), (0xFFD0, 0xFFD1), (0xFFD8, 0xFFD9),
     (0xFFDD, 0xFFDF), (0xFFE7, 0xFFE7), (0xFFEF, 0xFFFB), (0xFFFE, 0xFFFF),
     (0x1000C, 0x1000C), (0x10027, 0x10027), (0x1003B, 0x1003B), (0x1003E, 0x1003E),
     (0x1004E, 0x1004F), (0x1005E, 0x1007F), (0x100FB, 0x100FF), (0x10103, 0x10106),
     (0x10134, 0x10136), (0x1018F, 0x1018F), (0x1019D, 0x1019F), (0x101A1, 0x101CF),
     (0x101FE, 0x1027F), (0x1029D, 0x1029F), (0x102D1, 0x102DF), (0x102FC, 0x102FF),
     (0x10324, 0x1032C), (0x1034B, 0x1034F), (0x1037B, 0x1037F), (0x1039E, 0x1039E),
     (0x103C4, 0x103C7), (0x103D6, 0x103FF), (0x1049E, 0x1049F), (0x104AA, 0x104AF),
     (0x104D4, 0x104D7), (0x104FC, 0x104FF), (0x10528, 0x1052F), (0x10564, 0x1056E),
     (0x1057B, 0x1057B), (0x1058B, 0x1058B), (0x10593, 0x10593), (0x10596, 0x10596),
     (0x105A2, 0x105A2), (0x105B2, 0x105B2), (0x105BA, 0x105BA), (0x105BD, 0x105FF),
     (0x10737, 0x1073F), (0x10756, 0x1075F), (0x10768, 0x1077F), (0x10786, 0x10786),
     (0x107B1, 0x107B1), (0x107BB, 0x107FF), (0x10806, 0x10807), (0x10809, 0x10809),
     (0x10836, 0x10836), (0x10839, 0x1083B), (0x1083D, 0x1083E), (0x10856, 0x10856),
     (0x1089F, 0x108A6), (0x108B0, 0x108DF), (0x108F3, 0x108F3), (0x108F6, 0x108FA),
     (0x1091C, 0x1091E), (0x1093A, 0x1093E), (0x10940, 0x1097F), (0x109B8, 0x109BB),
     (0x109D0, 0x109D1), (0x10A04, 0x10A04), (0x10A07, 0x10A0B), (0x10A14, 0x10A14),
     (0x10A18, 0x10A18), (0x10A36, 0x10A37), (0x10A3B, 0x10A3E), (0x10A49, 0x10A4F),
     (0x10A59, 0x10A5F), (0x10AA0, 0x10ABF), (0x10AE7, 0x10AEA), (0x10AF7, 0x10AFF),
     (0x10B36, 0x10B38), (0x10B56, 0x10B57), (0x10B73, 0x10B77), (0x10B92, 0x10B98),
     (0x10B9D, 0x10BA8), (0x10BB0, 0x10BFF), (0x10C49, 0x10C7F), (0x10CB3, 0x10CBF),
     (0x10CF3, 0x10CF9), (0x10D28, 0x10D2F), (0x10D3A, 0x10E5F), (0x10E7F, 0x10E7F),
     (0x10EAA, 0x10EAA), (0x10EAE, 0x10EAF), (0x10EB2, 0x10EFF), (0x10F28, 0x10F2F),
     (0x10F5A, 0x10F6F), (0x10F8A, 0x10FAF), (0x10FCC, 0x10FDF), (0x10FF7, 0x10FFF),
     (0x1104E, 0x11051), (0x11076, 0x1107E), (0x110BD, 0x110BD), (0x110C3, 0x110CF),
     (0x110E9, 0x110EF), (0x110FA, 0x110FF), (0x11135, 0x11135), (0x11148, 0x1114F),
     (0x11177, 0x1117F), (0x111E0, 0x111E0), (0x111F5, 0x111FF), (0x11212, 0x11212),
     (0x1123F, 0x1127F), (0x11287, 0x11287), (0x11289, 0x11289), (0x1128E, 0x1128E),
     (0x1129E, 0x1129E), (0x112AA, 0x112AF), (0x112EB, 0x112EF), (0x112FA, 0x112FF),
     (0x11304, 0x11304), (0x1130D, 0x1130E), (0x11311, 0x11312), (0x11329, 0x11329),
     (0x11331, 0x11331), (0x11334, 0x11334), (0x1133A, 0x1133A), (0x11345, 0x11346),
     (0x11349, 0x1134A), (0x1134E, 0x1134F), (0x11351, 0x11356), (0x11358, 0x1135C),
     (0x11364, 0x11365), (0x1136D, 0x1136F), (0x11375, 0x113FF), (0x1145C, 0x1145C),
     (0x11462, 0x1147F), (0x114C8, 0x114CF), (0x114DA, 0x1157F), (0x115B6, 0x115B7),
     (0x115DE, 0x115FF), (0x11645, 0x1164F), (0x1165A, 0x1165F), (0x1166D, 0x1167F),
     (0x116BA, 0x116BF), (0x116CA, 0x116FF), (0x1171B, 0x1171C), (0x1172C, 0x1172F),
     (0x11747, 0x117FF), (0x1183C, 0x1189F), (0x118F3, 0x118FE), (0x11907, 0x11908),
     (0x1190A, 0x1190B), (0x11914, 0x11914), (0x11917, 0x11917), (0x11936, 0x11936),
     (0x11939, 0x1193A), (0x11947, 0x1194F), (0x1195A, 0x1199F), (0x119A8, 0x119A9),
     (0x119D8, 0x119D9), (0x119E5, 0x119FF), (0x11A48, 0x11A4F), (0x11AA3, 0x11AAF),
     (0x11AF9, 0x11BFF), (0x11C09, 0x11C09), (0x11C37, 0x11C37), (0x11C46, 0x11C4F),
     (0x11C6D, 0x11C6F), (0x11C90, 0x11C91), (0x11CA8, 0x11CA8), (0x11CB7, 0x11CFF),
     (0x11D07, 0x11D07), (0x11D0A, 0x11D0A), (0x11D37, 0x11D39), (0x11D3B, 0x11D3B),
     (0x11D3E, 0x11D3E), (0x11D48, 0x11D4F), (0x11D5A, 0x11D5F), (0x11D66, 0x11D66),
     (0x11D69, 0x11D69), (0x11D8F, 0x11D8F), (0x11D92, 0x11D92), (0x11D99, 0x11D9F),
     (0x11DAA, 0x11EDF), (0x11EF9, 0x11FAF), (0x11FB1, 0x11FBF), (0x11FF2, 0x11FFE),
     (0x1239A, 0x123FF), (0x1246F, 0x1246F), (0x12475, 0x1247F), (0x12544, 0x12F8F),
     (0x12FF3, 0x12FFF), (0x1342F, 0x143FF), (0x14647, 0x167FF), (0x16A39, 0x16A3F),
     (0x16A5F, 0x16A5F), (0x16A6A, 0x16A6D), (0x16ABF, 0x16ABF), (0x16ACA, 0x16ACF),
     (0x16AEE, 0x16AEF), (0x16AF6, 0x16AFF), (0x16B46, 0x16B4F), (0x16B5A, 0x16B5A),
     (0x16B62, 0x16B62), (0x16B78, 0x16B7C), (0x16B90, 0x16E3F), (0x16E9B, 0x16EFF),
     (0x16F4B, 0x16F4E), (0x16F88, 0x16F8E), (0x16FA0, 0x16FDF), (0x16FE5, 0x16FEF),
     (0x16FF2, 0x16FFF), (0x187F8, 0x187FF), (0x18CD6, 0x18CFF), (0x18D09, 0x1AFEF),
     (0x1AFF4, 0x1AFF4), (0x1AFFC, 0x1AFFC), (0x1AFFF, 0x1AFFF), (0x1B123, 0x1B14F),
     (0x1B153, 0x1B163), (0x1B168, 0x1B16F), (0x1B2FC, 0x1BBFF), (0x1BC6B, 0x1BC6F),
     (0x1BC7D, 0x1BC7F), (0x1BC89, 0x1BC8F), (0x1BC9A, 0x1BC9B), (0x1BCA0, 0x1CEFF),
     (0x1CF2E, 0x1CF2F), (0x1CF47, 0x1CF4F), (0x1CFC4, 0x1CFFF), (0x1D0F6, 0x1D0FF),
     (0x1D127, 0x1D128), (0x1D173, 0x1D17A), (0x1D1EB, 0x1D1FF), (0x1D246, 0x1D2DF),
     (0x1D2F4, 0x1D2FF), (0x1D357, 0x1D35F), (0x1D379, 0x1D3FF), (0x1D455, 0x1D455),
     (0x1D49D, 0x1D49D), (0x1D4A0, 0x1D4A1), (0x1D4A3, 0x1D4A4), (0x1D4A7, 0x1D4A8),
     (0x1D4AD, 0x1D4AD), (0x1D4BA, 0x1D4BA), (0x1D4BC, 0x1D4BC), (0x1D4C4, 0x1D4C4),
     (0x1D506, 0x1D506), (0x1D50B, 0x1D50C), (0x1D515, 0x1D515), (0x1D51D, 0x1D51D),
     (0x1D53A, 0x1D53A), (0x1D53F, 0x1D53F), (0x1D545, 0x1D545), (0x1D547, 0x1D549),
     (0x1D551, 0x1D551), (0x1D6A6, 0x1D6A7), (0x1D7CC, 0x1D7CD), (0x1DA8C, 0x1DA9A),
     (0x1DAA0, 0x1DAA0), (0x1DAB0, 0x1DEFF), (0x1DF1F, 0x1DFFF), (0x1E007, 0x1E007),
     (0x1E019, 0x1E01A), (0x1E022, 0x1E022), (0x1E025, 0x1E025), (0x1E02B, 0x1E0FF),
     (0x1E12D, 0x1E12F), (0x1E13E, 0x1E13F), (0x1E14A, 0x1E14D), (0x1E150, 0x1E28F),
     (0x1E2AF, 0x1E2BF), (0x1E2FA, 0x1E2FE), (0x1E300, 0x1E7DF), (0x1E7E7, 0x1E7E7),
     (0x1E7EC, 0x1E7EC), (0x1E7EF, 0x1E7EF), (0x1E7FF, 0x1E7FF), (0x1E8C5, 0x1E8C6),
     (0x1E8D7, 0x1E8FF), (0x1E94C, 0x1E94F), (0x1E95A, 0x1E95D), (0x1E960, 0x1EC70),
     (0x1ECB5, 0x1ED00), (0x1ED3E, 0x1EDFF), (0x1EE04, 0x1EE04), (0x1EE20, 0x1EE20),
     (0x1EE23, 0x1EE23), (0x1EE25, 0x1EE26), (0x1EE28, 0x1EE28), (0x1EE33, 0x1EE33),
     (0x1EE38, 0x1EE38), (0x1EE3A, 0x1EE3A), (0x1EE3C, 0x1EE41), (0x1EE43, 0x1EE46),
     (0x1EE48, 0x1EE48), (0x1EE4A, 0x1EE4A), (0x1EE4C, 0x1EE4C), (0x1EE50, 0x1EE50),
     (0x1EE53, 0x1EE53), (0x1EE55, 0x1EE56), (0x1EE58, 0x1EE58), (0x1EE5A, 0x1EE5A),
     (0x1EE5C, 0x1EE5C), (0x1EE5E, 0x1EE5E), (0x1EE60, 0x1EE60), (0x1EE63, 0x1EE63),
     (0x1EE65, 0x1EE66), (0x1EE6B, 0x1EE6B), (0x1EE73, 0x1EE73), (0x1EE78, 0x1EE78),
     (0x1EE7D, 0x1EE7D), (0x1EE7F, 0x1EE7F), (0x1EE8A, 0x1EE8A), (0x1EE9C, 0x1EEA0),
     (0x1EEA4, 0x1EEA4), (0x1EEAA, 0x1EEAA), (0x1EEBC, 0x1EEEF), (0x1EEF2, 0x1EFFF),
     (0x1F02C, 0x1F02F), (0x1F094, 0x1F09F), (0x1F0AF, 0x1F0B0), (0x1F0C0, 0x1F0C0),
     (0x1F0D0, 0x1F0D0), (0x1F0F6, 0x1F0FF), (0x1F1AE, 0x1F1E5), (0x1F203, 0x1F20F),
     (0x1F23C, 0x1F23F), (0x1F249, 0x1F24F), (0x1F252, 0x1F25F), (0x1F266, 0x1F2FF),
     (0x1F6D8, 0x1F6DC), (0x1F6ED, 0x1F6EF), (0x1F6FD, 0x1F6FF), (0x1F774, 0x1F77F),
     (0x1F7D9, 0x1F7DF), (0x1F7EC, 0x1F7EF), (0x1F7F1, 0x1F7FF), (0x1F80C, 0x1F80F),
     (0x1F848, 0x1F84F), (0x1F85A, 0x1F85F), (0x1F888, 0x1F88F), (0x1F8AE, 0x1F8AF),
     (0x1F8B2, 0x1F8FF), (0x1FA54, 0x1FA5F), (0x1FA6E, 0x1FA6F), (0x1FA75, 0x1FA77),
     (0x1FA7D, 0x1FA7F), (0x1FA87, 0x1FA8F), (0x1FAAD, 0x1FAAF), (0x1FABB, 0x1FABF),
     (0x1FAC6, 0x1FACF), (0x1FADA, 0x1FADF), (0x1FAE8, 0x1FAEF), (0x1FAF7, 0x1FAFF),
     (0x1FB93, 0x1FB93), (0x1FBCB, 0x1FBEF), (0x1FBFA, 0x1FFFF), (0x2A6E0, 0x2A6FF),
     (0x2B739, 0x2B73F), (0x2B81E, 0x2B81F), (0x2CEA2, 0x2CEAF), (0x2EBE1, 0x2F7FF),
     (0x2FA1E, 0x2FFFF), (0x3134B, 0xE00FF), (0xE01F0, 0x10FFFF)]"

definition isprintable :: "nat \<Rightarrow> bool" where
  "isprintable cp = (\<not> list_ex (\<lambda>(lo, hi). lo \<le> cp \<and> cp \<le> hi) unprintable)"

definition unicode_escape :: "nat \<Rightarrow> string" where
  "unicode_escape cp =
     (if cp < 0x100 then [CHR 0x5C, CHR ''x''] @ hex 2 cp
      else if cp < 0x10000 then [CHR 0x5C, CHR ''u''] @ hex 4 cp
      else [CHR 0x5C, CHR ''U''] @ hex 8 cp)"

fun repr_chars :: "char \<Rightarrow> string \<Rightarrow> string" where
  "repr_chars q [] = []"
| "repr_chars q (c # cs) =
     (if (of_char c :: nat) < 0x80 then repr_char q c @ repr_chars q cs
      else
        (if isprintable (code_point (c # take (utf8_width c - 1) cs))
         then c # take (utf8_width c - 1) cs
         else unicode_escape (code_point (c # take (utf8_width c - 1) cs))) @
        repr_chars q (drop (utf8_width c - 1) cs))"

definition str_repr :: "string \<Rightarrow> string" where
  "str_repr s = (let q = repr_quote s in q # repr_chars q s @ [q])"

fun join :: "string \<Rightarrow> string list \<Rightarrow> string" where
  "join sep [] = []"
| "join sep [x] = x"
| "join sep (x # y # ys) = x @ sep @ join sep (y # ys)"

fun py_repr :: "json \<Rightarrow> string" where
  "py_repr JNull = ''None''"
| "py_repr (JBool b) = (if b then ''True'' else ''False'')"
| "py_repr (JInt i) = int_str i"
| "py_repr (JFloat t) = t"
| "py_repr (JStr s) = str_repr s"
| "py_repr (JArr xs) = ''['' @ join '', '' (map py_repr xs) @ '']''"
| "py_repr (JObj kvs) =
     ''{'' @ join '', '' (map (\<lambda>(k, v). str_repr k @ '': '' @ py_repr v) kvs) @ ''}''"

text \<open>An f-string field \<^verbatim>\<open>{x}\<close> inserts \<^verbatim>\<open>str(x)\<close>.\<close>

fun py_str :: "json \<Rightarrow> string" where
  "py_str (JStr s) = s"
| "py_str v = py_repr v"

subsection \<open>The operations the handlers apply to request data\<close>

text \<open>Truth value, as \<^verbatim>\<open>not history\<close> tests it.\<close>

fun truthy :: "json \<Rightarrow> bool" where
  "truthy JNull = False"
| "truthy (JBool b) = b"
| "truthy (JInt i) = (i \<noteq> 0)"
| "truthy (JFloat t) = (t \<noteq> ''0.0'' \<and> t \<noteq> ''-0.0'')"
| "truthy (JStr s) = (s \<noteq> [])"
| "truthy (JArr xs) = (xs \<noteq> [])"
| "truthy (JObj kvs) = (kvs \<noteq> [])"

text \<open>\<^verbatim>\<open>data.get(key, default)\<close>: only a dict has the method.\<close>

fun dict_get :: "json \<Rightarrow> string \<Rightarrow> json \<Rightarrow> py_exception + json" where
  "dict_get (JObj kvs) k d = Inr (case map_of kvs k of None \<Rightarrow> d | Some v \<Rightarrow> v)"
| "dict_get _ k d = Inl AttributeError"

text \<open>\<^verbatim>\<open>item[key]\<close> with a string key: a dict looks it up, every other value refuses it.\<close>

fun getitem :: "json \<Rightarrow> string \<Rightarrow> py_exception + json" where
  "getitem (JObj kvs) k = (case map_of kvs k of None \<Rightarrow> Inl (KeyError k) | Some v \<Rightarrow> Inr v)"
| "getitem _ k = Inl TypeError"

text \<open>The characters of a string, each with all its bytes.\<close>

fun chars :: "string \<Rightarrow> string list" where
  "chars [] = []"
| "chars (c # cs) = (c # take (utf8_width c - 1) cs) # chars (drop (utf8_width c - 1) cs)"

text \<open>
  \<^verbatim>\<open>for item in history\<close>: a list gives its elements, a string its characters, a dict
  its keys; nothing else is iterable.
\<close>

fun py_iter :: "json \<Rightarrow> py_exception + json list" where
  "py_iter (JArr xs) = Inr xs"
| "py_iter (JStr s) = Inr (map JStr (chars s))"
| "py_iter (JObj kvs) = Inr (map (\<lambda>kv. JStr (fst kv)) kvs)"
| "py_iter _ = Inl TypeError"

text \<open>\<^verbatim>\<open>len(history)\<close>: the number of elements, characters or keys.\<close>

fun py_len :: "json \<Rightarrow> py_exception + nat" where
  "py_len (JArr xs) = Inr (length xs)"
| "py_len (JStr s) = Inr (length (chars s))"
| "py_len (JObj kvs) = Inr (length kvs)"
| "py_len _ = Inl TypeError"

section \<open>The HTTP surface and the model client\<close>

text \<open>
  A request as the handlers see it: \<^verbatim>\<open>request.is_json\<close> (the Content-Type names JSON) and
  what \<^verbatim>\<open>request.get_json()\<close> does, which is to return the parsed body or to raise
  (Flask raises \<^verbatim>\<open>BadRequest\<close> for a body that does not parse).
\<close>

record request =
  is_json :: bool
  get_json :: "py_exception + json"

text \<open>
  A response body is either text handed to \<^verbatim>\<open>Response\<close> as it is, or the value given to
  \<^verbatim>\<open>jsonify\<close>.
\<close>

datatype body = Raw string | Jsonify json

record response =
  status :: nat
  mimetype :: string
  body :: body

text \<open>
  The pydantic model \<^verbatim>\<open>QuestionResponse\<close>: each field has its annotation and the arguments
  of \<^verbatim>\<open>Field(...)\<close>. The bounds \<^verbatim>\<open>min_length\<close> and \<^verbatim>\<open>max_length\<close> are \<^verbatim>\<open>None\<close> unless
  the declaration passes them.
\<close>

datatype py_type = PyStr | PyList py_type

record field =
  field_name :: string
  annotation :: py_type
  description :: string
  min_length :: "nat option"
  max_length :: "nat option"

definition QuestionResponse :: "field list" where
  "QuestionResponse =
     [\<lparr>field_name = ''question'', annotation = PyStr,
       description = ''The dynamic question to ask the user'',
       min_length = None, max_length = None\<rparr>,
      \<lparr>field_name = ''options'', annotation = PyList PyStr,
       description = ''3 to 4 short, actionable multiple-choice options'',
       min_length = None, max_length = None\<rparr>]"

text \<open>The shape a schema enforces: every field present, of its type, within its bounds.\<close>

fun has_type :: "py_type \<Rightarrow> json \<Rightarrow> bool" where
  "has_type PyStr v = (case v of JStr s \<Rightarrow> True | _ \<Rightarrow> False)"
| "has_type (PyList t) v = (case v of JArr xs \<Rightarrow> list_all (has_type t) xs | _ \<Rightarrow> False)"

definition within_bounds :: "field \<Rightarrow> json \<Rightarrow> bool" where
  "within_bounds f v =
     (case py_len v of
        Inl e \<Rightarrow> min_length f = None \<and> max_length f = None
      | Inr n \<Rightarrow> (case min_length f of None \<Rightarrow> True | Some lo \<Rightarrow> lo \<le> n) \<and>
                 (case max_length f of None \<Rightarrow> True | Some hi \<Rightarrow> n \<le> hi))"

definition validates :: "field list \<Rightarrow> json \<Rightarrow> bool" where
  "validates schema v =
     (case v of
        JObj kvs \<Rightarrow>
          list_all (\<lambda>f. case map_of kvs (field_name f) of
                            None \<Rightarrow> False
                          | Some x \<Rightarrow> has_type (annotation f) x \<and> within_bounds f x) schema
      | _ \<Rightarrow> False)"

text \<open>
  One call of \<^verbatim>\<open>client.models.generate_content\<close>: the model identifier, the contents and
  the \<^verbatim>\<open>GenerateContentConfig\<close>. The temperature is the decimal literal of the source,
  as a rational number.
\<close>

record config =
  system_instruction :: string
  temperature :: rat
  response_mime_type :: "string option"
  response_schema :: "field list option"
  max_output_tokens :: "nat option"

record call =
  model :: string
  contents :: string
  config :: config

text \<open>
  The model client answers a call with the generated text or raises. The module-level
  \<^verbatim>\<open>client\<close> is \<^verbatim>\<open>None\<close> when its construction failed at start-up; then the attribute
  access \<^verbatim>\<open>client.models\<close> raises and no call goes out.
\<close>

type_synonym model_client = "call \<Rightarrow> py_exception + string"

text \<open>
  What a handler does besides answering: the calls it sends to the model client and the
  lines it logs (\<^verbatim>\<open>logger.error\<close> of a message prefix followed by \<^verbatim>\<open>str(e)\<close>, with or
  without \<^verbatim>\<open>exc_info\<close>).
\<close>

datatype effect = GenerateContent call | LogError string py_exception bool

definition generate_content ::
  "model_client option \<Rightarrow> call \<Rightarrow> effect list \<times> (py_exception + string)" where
  "generate_content client c =
     (case client of
        None \<Rightarrow> ([], Inl AttributeError)
      | Some g \<Rightarrow> ([GenerateContent c], g c))"

definition MODEL_NAME :: string where
  "MODEL_NAME = ''gemini-2.5-pro''"

section \<open>The prompt templates\<close>

text \<open>The fixed text of the two system prompts, between the interpolated fields.\<close>

definition question_role :: string where
  "question_role =
     ''ROLE:\<newline>'' @
     ''You are an ELITE, highly experienced career counselor for Easyskill Career Academy. '' @
     ''Your consultation fee is 500 rupees, meaning your service is premium, high-value, and '' @
     ''deeply analytical. Your job is to conduct a thorough, dynamic interview with a student '' @
     ''to build a concrete roadmap for their life.\<newline>'' @
     ''\<newline>''"

definition interview_rules :: string where
  "interview_rules =
     ''PHASE 1: THE INTERVIEW LOOP\<newline>'' @
     ''- Ask exactly ONE question at a time. Never ask multiple questions in a single '' @
     ''response.\<newline>'' @
     ''- PREMIUM COUNSELING REQUIREMENT: Because the user has paid 500 rupees, you must NEVER '' @
     ''ask boring, generic, or random questions. Every single question must be deeply '' @
     ''thought-provoking, directly relevant to building their career roadmap, and highly '' @
     ''professional.\<newline>'' @
     ''- ULTRA-SHORT QUESTIONS: Your questions MUST be extremely concise, punchy, and direct. '' @
     ''NEVER write 3-4 line questions. Use very short sentences, for example: \"Where have you '' @
     ''studied?\", \"What package do you want in your future?\", or \"What is your current '' @
     ''salary?\".\<newline>'' @
     ''- Your questions must adapt logically to the user's previous answers. Dig deep into '' @
     ''their specific skills, financial realities, and ambitions. Ensure a perfect, logical '' @
     ''flow to the questioning.\<newline>'' @
     ''- Ask a minimum of 7 and a maximum of 15 questions. If you feel you have gathered '' @
     ''enough deeply critical data to justify the 500-rupee premium report after 7 questions, '' @
     ''you may stop. Otherwise, continue up to 15.\<newline>'' @
     ''- Track the question count silently. Do not tell the user which question number they '' @
     ''are on.\<newline>'' @
     ''- End of Interview: Once you have asked 7 to 15 questions and gathered sufficient data '' @
     ''to build a premium roadmap, output the exact phrase: ASSESSMENT_COMPLETE and await the '' @
     ''command to generate the report.\<newline>'' @
     ''- CRITICAL: Provide exactly 3 to 4 short, highly clickable multiple-choice options for '' @
     ''the user to tap in valid JSON format.\<newline>'' @
     ''- LANGUAGE REQUIREMENT: You MUST generate the question and the options strictly in ''"

definition report_role :: string where
  "report_role =
     ''ROLE:\<newline>'' @
     ''You are an ELITE, highly experienced career counselor for Easyskill Career Academy. The '' @
     ''user has paid 500 rupees for this consultation roadmap, so the final report MUST '' @
     ''completely justify this premium price. It must be a highly customized, visually '' @
     ''scannable, and actionable life roadmap that feels exclusive and expertly crafted.\<newline>'' @
     ''    \<newline>''"

definition report_rules :: string where
  "report_rules =
     ''PHASE 2: THE FINAL PREMIUM REPORT GENERATION\<newline>'' @
     ''When commanded to generate the report, you must use the exact structure below.\<newline>'' @
     ''\<newline>'' @
     ''CRITICAL RULES FOR THE PREMIUM REPORT:\<newline>'' @
     ''- DO NOT use generic advice, long introductory paragraphs, or motivational filler. '' @
     ''Every word must hold high value.\<newline>'' @
     ''- The roadmap must perfectly logically align with the answers they gave during the '' @
     ''interview loop.\<newline>'' @
     ''- Use highly scannable bullet points, short sentences, and bold text for key terms.\<newline>'' @
     ''- Keep the tone elite, authoritative, professional, and highly actionable.\<newline>'' @
     ''- Format the output as clean HTML (using <h1>, <h2>, <ul>, <li>, <strong>) suitable for '' @
     ''injecting directly into a webpage's div. \<newline>'' @
     ''- EXTREMELY IMPORTANT BAN ON FULL HTML: DO NOT generate a full HTML document. You MUST '' @
     ''NOT include <!DOCTYPE html>, <html>, <head>, <style>, or <body> tags. ONLY output the '' @
     ''internal structural tags (<h1>, <h2>, <p>, <ul>, <footer>).\<newline>'' @
     ''- EXTREMELY IMPORTANT BAN ON MARKDOWN: DO NOT wrap the output in Markdown code blocks '' @
     ''(e.g. absolutely no ```html at the start and no ``` at the end). Just output the raw '' @
     ''HTML tags sequence directly as plain text. The system crashes if you use markdown code '' @
     ''blocks.\<newline>'' @
     ''- LANGUAGE REQUIREMENT: You MUST generate the report content strictly in ''"

definition report_layout :: string where
  "report_layout =
     ''REPORT VISUAL THEME AND STYLING:\<newline>'' @
     ''- Branding: The report should be headed with \"EASYSKILL CAREER ACADEMY\".\<newline>'' @
     ''- Color Palette: Use the clean white, light gray, and distinct blue from the source '' @
     ''image.\<newline>'' @
     ''- Headings: Style all <h1>, <h2>, <h3> tags with the academy's primary blue color.\<newline>'' @
     ''- Underline: Add a stylized blue underline element, similar to the one in the image '' @
     ''under \"IT Skills\", below the main <h1> title.\<newline>'' @
     ''- Fonts: Specify a clean, professional, sans-serif font throughout the HTML.\<newline>'' @
     ''- Scannability: Use the colors and bullet points to make information pop, mimicking the '' @
     ''clear sections and visual hierarchy of the provided image.\<newline>'' @
     ''- Trust-Building Elements: Integrate specific academy achievements from the source '' @
     ''image into the PDF footer for added credibility.\<newline>'' @
     ''- Add a section in the footer, stylized with a blue banner or border, featuring the '' @
     ''icons and specific stats from the bottom of the image:\<newline>'' @
     ''  - An icon of a student with the text \"25,500+ Happy Students\".\<newline>'' @
     ''  - An icon of an instructor with the text \"50+ Industry Courses\".\<newline>'' @
     ''  - A map pin icon with the text \"2+ Branches\".\<newline>'' @
     ''- Contact Info: Include the phone number from the source image (+91 908 154 5252) and a '' @
     ''small call-to-action to \"Contact us to kickstart your career!\" in the footer area. Use '' @
     ''the image's clean, modern styling for this.\<newline>'' @
     ''\<newline>'' @
     ''REPORT STRUCTURE:\<newline>'' @
     ''\<newline>'' @
     ''<h1>EASYSKILL CAREER ACADEMY</h1>\<newline>'' @
     ''<div class=\"styled-underline\"></div>\<newline>'' @
     ''\<newline>'' @
     ''<h2>1. Executive Profile Snapshot</h2>\<newline>'' @
     ''(Provide 3 to 4 sharp bullet points summarizing their core strengths, primary '' @
     ''interests, and ideal work environment based strictly on their interview answers).\<newline>'' @
     ''\<newline>'' @
     ''<h2>2. Top 3 Recommended Career Paths</h2>\<newline>'' @
     ''(For each path, provide):\<newline>'' @
     ''Role: [Specific Job Title]\<newline>'' @
     ''Why it fits: [One concise sentence explaining the match based on their specific '' @
     ''answers]\<newline>'' @
     ''Market Outlook: [Brief note on industry demand]\<newline>'' @
     ''\<newline>'' @
     ''<h2>3. The 30-Day Action Plan</h2>\<newline>'' @
     ''(Provide exactly 3 immediate, concrete steps. Avoid generic advice like \"network\". '' @
     ''Specify exact certifications, software tools, or specific types of portfolio projects '' @
     ''they should start immediately, making them actionable checklists).\<newline>'' @
     ''\<newline>'' @
     ''<h2>4. Skill Gap Analysis</h2>\<newline>'' @
     ''(List 2 to 3 specific technical or soft skills they currently lack for their '' @
     ''recommended paths, and recommend precise ways to acquire them, such as relevant online '' @
     ''courses or practical projects).\<newline>'' @
     ''\<newline>'' @
     ''<footer>\<newline>'' @
     ''<div class=\"stats-banner\">\<newline>'' @
     ''    <div class=\"stat\">'' @
     [CHR 0xEF, CHR 0xA3, CHR 0xBF, CHR 0xC3, CHR 0xBC, CHR 0xC3, CHR 0xAB, CHR 0xC2, CHR 0xA9,
      CHR 0xE2, CHR 0x80, CHR 0x9A, CHR 0xC3, CHR 0x84, CHR 0xC3, CHR 0xA7, CHR 0xEF, CHR 0xA3,
      CHR 0xBF, CHR 0xC3, CHR 0xBC, CHR 0xC3, CHR 0xA9, CHR 0xC3, CHR 0xAC] @
     '' 25,500+ Happy Students</div>\<newline>'' @
     ''    <div class=\"stat\">'' @
     [CHR 0xEF, CHR 0xA3, CHR 0xBF, CHR 0xC3, CHR 0xBC, CHR 0xC3, CHR 0xAB, CHR 0xC2, CHR 0xAE,
      CHR 0xE2, CHR 0x80, CHR 0x9A, CHR 0xC3, CHR 0x84, CHR 0xC3, CHR 0xA7, CHR 0xEF, CHR 0xA3,
      CHR 0xBF, CHR 0xC3, CHR 0xBC, CHR 0xC3, CHR 0xA8, CHR 0xC2, CHR 0xB4] @
     '' 50+ Industry Courses</div>\<newline>'' @
     ''    <div class=\"stat\">'' @
     [CHR 0xEF, CHR 0xA3, CHR 0xBF, CHR 0xC3, CHR 0xBC, CHR 0xC3, CHR 0xAC, CHR 0xC3, CHR 0xA7] @
     '' 2+ Branches</div>\<newline>'' @
     ''</div>\<newline>'' @
     ''<p style=\"text-align: center; margin-top: 20px; color: #1E3A8A; font-weight: '' @
     ''bold;\">Contact Us: +91 908 154 5252 | Learn more at easyskill.in</p>\<newline>'' @
     ''</footer>\<newline>'' @
     ''    ''"

section \<open>The handlers\<close>

text \<open>The five request fields, as both handlers read them from the body.\<close>

record survey =
  language :: json
  name :: json
  age :: json
  gender :: json
  history :: json

text \<open>The loop body shared by both handlers: one \<^verbatim>\<open>Q:\<close>/\<^verbatim>\<open>A:\<close> pair per history item.\<close>

fun qa_loop :: "string \<Rightarrow> json list \<Rightarrow> py_exception + string" where
  "qa_loop user_context [] = Inr user_context"
| "qa_loop user_context (item # items) =
     (case getitem item ''question'' of
        Inl e \<Rightarrow> Inl e
      | Inr q \<Rightarrow>
          (case getitem item ''answer'' of
             Inl e \<Rightarrow> Inl e
           | Inr a \<Rightarrow>
               qa_loop (user_context @ ''Q: '' @ py_str q @ ''\<newline>A: '' @ py_str a @ ''\<newline>'')
                 items))"

subsection \<open>\<^verbatim>\<open>/api/next_question\<close>\<close>

definition question_fields :: "json \<Rightarrow> py_exception + survey" where
  "question_fields data =
     (case dict_get data ''language'' (JStr ''English'') of Inl e \<Rightarrow> Inl e | Inr l \<Rightarrow>
     (case dict_get data ''name'' (JStr ''User'') of Inl e \<Rightarrow> Inl e | Inr n \<Rightarrow>
     (case dict_get data ''age'' (JInt 18) of Inl e \<Rightarrow> Inl e | Inr a \<Rightarrow>
     (case dict_get data ''gender'' (JStr ''Other'') of Inl e \<Rightarrow> Inl e | Inr g \<Rightarrow>
     (case dict_get data ''history'' (JArr []) of Inl e \<Rightarrow> Inl e | Inr h \<Rightarrow>
        Inr \<lparr>language = l, name = n, age = a, gender = g, history = h\<rparr>)))))"

definition question_prompt :: "survey \<Rightarrow> string" where
  "question_prompt s =
     question_role @
     ''The user profile: Name: '' @ py_str (name s) @ '', Age: '' @ py_str (age s) @
     '', Gender: '' @ py_str (gender s) @ '', Preferred Language: '' @ py_str (language s) @
     ''.\<newline>\<newline>'' @
     interview_rules @ py_str (language s) @ ''.\<newline>''"

definition question_context :: "json \<Rightarrow> py_exception + string" where
  "question_context h =
     (if \<not> truthy h then
        Inr (''Q&A History so far:\<newline>'' @
             ''No questions asked yet. This is Question 1. '' @
             ''Ask about their current life status or immediate goal.\<newline>'')
      else
        (case py_iter h of Inl e \<Rightarrow> Inl e | Inr items \<Rightarrow>
        (case qa_loop ''Q&A History so far:\<newline>'' items of Inl e \<Rightarrow> Inl e | Inr ctx \<Rightarrow>
        (case py_len h of Inl e \<Rightarrow> Inl e | Inr n \<Rightarrow>
           Inr (ctx @ ''\<newline>This is Question '' @ int_str (int n + 1) @
                ''. Based on the above, ask the NEXT logical question to dig deeper.'')))))"

text \<open>Everything before the \<^verbatim>\<open>try\<close> block: the call the handler is about to send.\<close>

definition question_call :: "request \<Rightarrow> py_exception + call" where
  "question_call r =
     (if \<not> is_json r then Inl (BadRequest ''Invalid request format. Expected JSON.'')
      else
        (case get_json r of Inl e \<Rightarrow> Inl e | Inr data \<Rightarrow>
        (case question_fields data of Inl e \<Rightarrow> Inl e | Inr s \<Rightarrow>
        (case question_context (history s) of Inl e \<Rightarrow> Inl e | Inr user_context \<Rightarrow>
           Inr \<lparr>model = ''gemini-2.5-flash'',
                contents = user_context,
                config = \<lparr>system_instruction = question_prompt s,
                           temperature = 6 / 10,
                           response_mime_type = Some ''application/json'',
                           response_schema = Some QuestionResponse,
                           max_output_tokens = None\<rparr>\<rparr>))))"

definition next_question ::
  "model_client option \<Rightarrow> request \<Rightarrow> effect list \<times> (py_exception + response)" where
  "next_question client r =
     (case question_call r of
        Inl e \<Rightarrow> ([], Inl e)
      | Inr c \<Rightarrow>
          (case generate_content client c of
             (effects, Inr text) \<Rightarrow>
               (effects, Inr \<lparr>status = 200, mimetype = ''application/json'', body = Raw text\<rparr>)
           | (effects, Inl e) \<Rightarrow>
               (effects @ [LogError ''Error in Gemini next_question: '' e False],
                Inr \<lparr>status = 500, mimetype = ''application/json'',
                     body = Jsonify (JObj [(''error'', JStr ''Failed to calculate next question.'')])\<rparr>)))"

subsection \<open>\<^verbatim>\<open>/api/generate_report\<close>\<close>

definition report_fields :: "json \<Rightarrow> py_exception + survey" where
  "report_fields data =
     (case dict_get data ''name'' (JStr ''User'') of Inl e \<Rightarrow> Inl e | Inr n \<Rightarrow>
     (case dict_get data ''age'' JNull of Inl e \<Rightarrow> Inl e | Inr a \<Rightarrow>
     (case dict_get data ''gender'' JNull of Inl e \<Rightarrow> Inl e | Inr g \<Rightarrow>
     (case dict_get data ''history'' (JArr []) of Inl e \<Rightarrow> Inl e | Inr h \<Rightarrow>
     (case dict_get data ''language'' (JStr ''English'') of Inl e \<Rightarrow> Inl e | Inr l \<Rightarrow>
        Inr \<lparr>language = l, name = n, age = a, gender = g, history = h\<rparr>)))))"

definition report_prompt :: "survey \<Rightarrow> string" where
  "report_prompt s =
     report_role @
     ''The user profile: '' @ py_str (name s) @ '', '' @ py_str (age s) @
     '' years old, gender: '' @ py_str (gender s) @
     '', Preferred Language: '' @ py_str (language s) @ ''.\<newline>    \<newline>'' @
     report_rules @ py_str (language s) @ ''.\<newline>\<newline>'' @
     report_layout"

definition report_context :: "json \<Rightarrow> py_exception + string" where
  "report_context h =
     (case py_iter h of Inl e \<Rightarrow> Inl e | Inr items \<Rightarrow>
     (case qa_loop ''User's Q&A History:\<newline>'' items of Inl e \<Rightarrow> Inl e | Inr ctx \<Rightarrow>
        Inr (ctx @ ''\<newline>Generate the final counseling report and course pitch.'')))"

definition report_call :: "request \<Rightarrow> py_exception + call" where
  "report_call r =
     (if \<not> is_json r then Inl (BadRequest ''Invalid request format. Expected JSON.'')
      else
        (case get_json r of Inl e \<Rightarrow> Inl e | Inr data \<Rightarrow>
        (case report_fields data of Inl e \<Rightarrow> Inl e | Inr s \<Rightarrow>
        (case report_context (history s) of Inl e \<Rightarrow> Inl e | Inr user_context \<Rightarrow>
           Inr \<lparr>model = MODEL_NAME,
                contents = user_context,
                config = \<lparr>system_instruction = report_prompt s,
                           temperature = 4 / 10,
                           response_mime_type = None,
                           response_schema = None,
                           max_output_tokens = Some 8192\<rparr>\<rparr>))))"

definition generate_report ::
  "model_client option \<Rightarrow> request \<Rightarrow> effect list \<times> (py_exception + response)" where
  "generate_report client r =
     (case report_call r of
        Inl e \<Rightarrow> ([], Inl e)
      | Inr c \<Rightarrow>
          (case generate_content client c of
             (effects, Inr text) \<Rightarrow>
               (effects, Inr \<lparr>status = 200, mimetype = ''application/json'',
                              body = Jsonify (JObj [(''report'', JStr text)])\<rparr>)
           | (effects, Inl e) \<Rightarrow>
               (effects @ [LogError ''Error generating report: '' e True],
                Inr \<lparr>status = 500, mimetype = ''application/json'',
                     body = Jsonify (JObj [(''error'', JStr ''Failed to generate report.'')])\<rparr>)))"

section \<open>Notions used in the statements\<close>

text \<open>
  A history item in the sense of the data model: a dict, and one that has both the
  \<^verbatim>\<open>question\<close> and the \<^verbatim>\<open>answer\<close> key. \<open>entry\<close> reads a key of such an item.
\<close>

fun is_dict :: "json \<Rightarrow> bool" where
  "is_dict (JObj kvs) = True"
| "is_dict _ = False"

fun qa_item :: "json \<Rightarrow> bool" where
  "qa_item (JObj kvs) = (map_of kvs ''question'' \<noteq> None \<and> map_of kvs ''answer'' \<noteq> None)"
| "qa_item _ = False"

fun entry :: "json \<Rightarrow> string \<Rightarrow> json" where
  "entry (JObj kvs) k = (case map_of kvs k of None \<Rightarrow> JNull | Some v \<Rightarrow> v)"
| "entry _ k = JNull"

text \<open>The first of the two keys that a dict lacks.\<close>

fun missing_key :: "json \<Rightarrow> string" where
  "missing_key (JObj kvs) =
     (if map_of kvs ''question'' = None then ''question'' else ''answer'')"
| "missing_key v = ''question''"

text \<open>The question/answer pair of one item, as it is to appear in the user context.\<close>

definition qa_text :: "json \<Rightarrow> string" where
  "qa_text item =
     ''Q: '' @ py_str (entry item ''question'') @ ''\<newline>'' @
     ''A: '' @ py_str (entry item ''answer'') @ ''\<newline>''"

text \<open>
  The response shape in the words of the specification: a question that is a string and
  options that are a sequence of three to four strings.
\<close>

definition three_to_four_options :: "json \<Rightarrow> bool" where
  "three_to_four_options v =
     (case v of
        JObj kvs \<Rightarrow>
          (case (map_of kvs ''question'', map_of kvs ''options'') of
             (Some (JStr q), Some (JArr os)) \<Rightarrow>
               list_all (has_type PyStr) os \<and> 3 \<le> length os \<and> length os \<le> 4
           | _ \<Rightarrow> False)
      | _ \<Rightarrow> False)"

section \<open>Sample requests, histories and clients\<close>

text \<open>
  A history of two answered questions, one whose second item has no answer and whose
  third is a number, one whose second item is a string, and one that holds
  \<^verbatim>\<open>null\<close> before an empty dict.
\<close>

definition two_answers :: "json list" where
  "two_answers =
     [JObj [(''question'', JStr ''Where have you studied?''), (''answer'', JStr ''Pune'')],
      JObj [(''question'', JStr ''Current salary?''), (''answer'', JInt 0)]]"

definition unanswered :: "json list" where
  "unanswered =
     [JObj [(''question'', JStr ''Where have you studied?''), (''answer'', JStr ''Pune'')],
      JObj [(''question'', JStr ''Current salary?'')],
      JInt 5]"

definition text_item :: "json list" where
  "text_item =
     [JObj [(''question'', JStr ''Where have you studied?''), (''answer'', JStr ''Pune'')],
      JStr ''Current salary?'']"

definition null_then_empty :: "json list" where
  "null_then_empty = [JNull, JObj []]"

text \<open>
  A JSON request whose body is \<^verbatim>\<open>{"history": []}\<close>, one whose body is
  \<^verbatim>\<open>{"name": "Asha"}\<close>, and a request that is not declared as JSON (its
  \<^verbatim>\<open>get_json\<close> is never consulted).
\<close>

definition empty_history_request :: request where
  "empty_history_request = \<lparr>is_json = True, get_json = Inr (JObj [(''history'', JArr [])])\<rparr>"

definition name_only_request :: request where
  "name_only_request = \<lparr>is_json = True, get_json = Inr (JObj [(''name'', JStr ''Asha'')])\<rparr>"

definition plain_text_request :: request where
  "plain_text_request =
     \<lparr>is_json = False, get_json = Inl (BadRequest ''Failed to decode JSON object'')\<rparr>"

text \<open>
  A model client that always raises, one that answers with five options, and a
  question object without any option.
\<close>

definition failing_client :: model_client where
  "failing_client c = Inl (ClientError ''503 UNAVAILABLE'')"

definition five_options_client :: model_client where
  "five_options_client c = Inr ''{\"question\": \"Goal?\", \"options\": [\"a\", \"b\", \"c\", \"d\", \"e\"]}''"

definition no_options :: json where
  "no_options = JObj [(''question'', JStr ''Where have you studied?''), (''options'', JArr [])]"

section \<open>The history loop\<close>

lemma getitem_qa_item:
  assumes "qa_item item"
  shows "getitem item ''question'' = Inr (entry item ''question'')"
    and "getitem item ''answer'' = Inr (entry item ''answer'')"
  using assms by (cases item; auto)+

lemma qa_loop_complete:
  "list_all qa_item items \<Longrightarrow> qa_loop ctx items = Inr (ctx @ concat (map qa_text items))"
proof (induction items arbitrary: ctx)
  case Nil
  show ?case by simp
next
  case (Cons item items)
  from Cons.prems have it: "qa_item item" and rest: "list_all qa_item items" by simp_all
  show ?case
    by (simp add: getitem_qa_item [OF it] Cons.IH [OF rest] qa_text_def)
qed

lemma qa_loop_first_bad:
  "list_all qa_item good \<Longrightarrow> \<not> qa_item item \<Longrightarrow>
   qa_loop ctx (good @ item # rest) =
     Inl (if is_dict item then KeyError (missing_key item) else TypeError)"
proof (induction good arbitrary: ctx)
  case Nil
  then show ?case
    by (cases item) (auto split: option.splits)
next
  case (Cons x good)
  from Cons.prems have x: "qa_item x" and g: "list_all qa_item good" by simp_all
  show ?case
    by (simp add: getitem_qa_item [OF x] Cons.IH [OF g Cons.prems(2)])
qed

section \<open>What the handlers send\<close>

lemma question_fields_dict:
  "question_fields (JObj kvs) =
     Inr \<lparr>language = (case map_of kvs ''language'' of None \<Rightarrow> JStr ''English'' | Some v \<Rightarrow> v),
          name = (case map_of kvs ''name'' of None \<Rightarrow> JStr ''User'' | Some v \<Rightarrow> v),
          age = (case map_of kvs ''age'' of None \<Rightarrow> JInt 18 | Some v \<Rightarrow> v),
          gender = (case map_of kvs ''gender'' of None \<Rightarrow> JStr ''Other'' | Some v \<Rightarrow> v),
          history = (case map_of kvs ''history'' of None \<Rightarrow> JArr [] | Some v \<Rightarrow> v)\<rparr>"
  by (simp add: question_fields_def)

lemma report_fields_dict:
  "report_fields (JObj kvs) =
     Inr \<lparr>language = (case map_of kvs ''language'' of None \<Rightarrow> JStr ''English'' | Some v \<Rightarrow> v),
          name = (case map_of kvs ''name'' of None \<Rightarrow> JStr ''User'' | Some v \<Rightarrow> v),
          age = (case map_of kvs ''age'' of None \<Rightarrow> JNull | Some v \<Rightarrow> v),
          gender = (case map_of kvs ''gender'' of None \<Rightarrow> JNull | Some v \<Rightarrow> v),
          history = (case map_of kvs ''history'' of None \<Rightarrow> JArr [] | Some v \<Rightarrow> v)\<rparr>"
  by (simp add: report_fields_def)

lemma fields_not_dict:
  "\<not> is_dict v \<Longrightarrow> question_fields v = Inl AttributeError \<and> report_fields v = Inl AttributeError"
  by (cases v) (simp_all add: question_fields_def report_fields_def)

lemma next_question_sent:
  "GenerateContent c \<in> set (fst (next_question client r)) \<Longrightarrow> question_call r = Inr c"
  by (auto simp: next_question_def generate_content_def split: sum.splits option.splits prod.splits)

lemma generate_report_sent:
  "GenerateContent c \<in> set (fst (generate_report client r)) \<Longrightarrow> report_call r = Inr c"
  by (auto simp: generate_report_def generate_content_def split: sum.splits option.splits prod.splits)

lemma question_call_model: "question_call r = Inr c \<Longrightarrow> model c = ''gemini-2.5-flash''"
  by (auto simp: question_call_def split: if_splits sum.splits)

lemma report_call_model: "report_call r = Inr c \<Longrightarrow> model c = MODEL_NAME"
  by (auto simp: report_call_def split: if_splits sum.splits)

lemma report_call_dict:
  assumes "report_call r = Inr c" and "get_json r = Inr (JObj kvs)"
  shows "\<exists>s. report_fields (JObj kvs) = Inr s \<and> system_instruction (config c) = report_prompt s"
  using assms
  by (auto simp: report_call_def split: if_splits sum.splits)

lemma validates_QuestionResponse:
  "validates QuestionResponse (JObj kvs) =
     ((\<exists>q. map_of kvs ''question'' = Some (JStr q)) \<and>
      (\<exists>os. map_of kvs ''options'' = Some (JArr os) \<and> list_all (has_type PyStr) os))"
  by (auto simp: validates_def QuestionResponse_def within_bounds_def
      split: option.splits json.splits)

section \<open>The claims\<close>

text \<open>
  C1. For every valid JSON request body to \<^verbatim>\<open>/api/next_question\<close> or
  \<^verbatim>\<open>/api/generate_report\<close> that omits any of the optional fields, the handler applies
  the documented defaults: language "English", name "User", age 18, gender "Other",
  history []. On the empty object \<^verbatim>\<open>next_question\<close> does so, while
  \<^verbatim>\<open>generate_report\<close> reads \<^verbatim>\<open>age\<close> and \<^verbatim>\<open>gender\<close> as \<^verbatim>\<open>None\<close>.
\<close>

theorem report_defaults_missing:
  "report_fields (JObj []) =
     Inr \<lparr>language = JStr ''English'', name = JStr ''User'', age = JNull, gender = JNull,
          history = JArr []\<rparr> \<and>
   question_fields (JObj []) =
     Inr \<lparr>language = JStr ''English'', name = JStr ''User'', age = JInt 18,
          gender = JStr ''Other'', history = JArr []\<rparr>"
  by (simp add: report_fields_def question_fields_def)

text \<open>
  C2. For a history of N items, each with a \<^verbatim>\<open>question\<close> and an \<^verbatim>\<open>answer\<close> field, the
  user context built by either endpoint is its header, then exactly the N
  question/answer pairs in the order of the history, then its closing line.
\<close>

theorem history_pairs_in_order:
  assumes "is_json r" and "get_json r = Inr (JObj kvs)"
    and "map_of kvs ''history'' = Some (JArr items)"
    and "list_all qa_item items"
  shows "(\<exists>c. question_call r = Inr c \<and>
            contents c =
              ''Q&A History so far:\<newline>'' @ concat (map qa_text items) @
              (if items = [] then
                 ''No questions asked yet. This is Question 1. '' @
                 ''Ask about their current life status or immediate goal.\<newline>''
               else
                 ''\<newline>This is Question '' @ int_str (int (length items) + 1) @
                 ''. Based on the above, ask the NEXT logical question to dig deeper.'')) \<and>
         (\<exists>c. report_call r = Inr c \<and>
            contents c =
              ''User's Q&A History:\<newline>'' @ concat (map qa_text items) @
              ''\<newline>Generate the final counseling report and course pitch.'')"
proof
  show "\<exists>c. question_call r = Inr c \<and>
            contents c =
              ''Q&A History so far:\<newline>'' @ concat (map qa_text items) @
              (if items = [] then
                 ''No questions asked yet. This is Question 1. '' @
                 ''Ask about their current life status or immediate goal.\<newline>''
               else
                 ''\<newline>This is Question '' @ int_str (int (length items) + 1) @
                 ''. Based on the above, ask the NEXT logical question to dig deeper.'')"
    using assms(1-3)
    by (simp add: question_call_def question_fields_dict question_context_def
        qa_loop_complete [OF assms(4)])
  show "\<exists>c. report_call r = Inr c \<and>
            contents c =
              ''User's Q&A History:\<newline>'' @ concat (map qa_text items) @
              ''\<newline>Generate the final counseling report and course pitch.''"
    using assms(1-3)
    by (simp add: report_call_def report_fields_dict report_context_def
        qa_loop_complete [OF assms(4)])
qed

theorem history_pairs_in_order_witness:
  "list_all qa_item two_answers \<and>
   map_sum id contents
     (question_call \<lparr>is_json = True, get_json = Inr (JObj [(''history'', JArr two_answers)])\<rparr>) =
     Inr (''Q&A History so far:\<newline>'' @
          ''Q: Where have you studied?\<newline>A: Pune\<newline>'' @
          ''Q: Current salary?\<newline>A: 0\<newline>'' @
          ''\<newline>This is Question 3. Based on the above, ask the NEXT logical question to dig deeper.'') \<and>
   map_sum id contents
     (report_call \<lparr>is_json = True, get_json = Inr (JObj [(''history'', JArr two_answers)])\<rparr>) =
     Inr (''User's Q&A History:\<newline>'' @
          ''Q: Where have you studied?\<newline>A: Pune\<newline>'' @
          ''Q: Current salary?\<newline>A: 0\<newline>'' @
          ''\<newline>Generate the final counseling report and course pitch.'')"
proof -
  let ?r = "\<lparr>is_json = True, get_json = Inr (JObj [(''history'', JArr two_answers)])\<rparr>"
  have h: "list_all qa_item two_answers"
    by (simp add: two_answers_def)
  have ne: "two_answers \<noteq> []" and len: "length two_answers = 2"
    by (simp_all add: two_answers_def)
  have pairs: "concat (map qa_text two_answers) =
      ''Q: Where have you studied?\<newline>A: Pune\<newline>'' @ ''Q: Current salary?\<newline>A: 0\<newline>''"
    by (simp add: two_answers_def qa_text_def int_str_def digit_char_def)
  have three: "int_str 3 = ''3''"
    by (simp add: int_str_def digit_char_def)
  from history_pairs_in_order [of ?r "[(''history'', JArr two_answers)]" two_answers, OF _ _ _ h]
  show ?thesis
    using h by (auto simp: ne len pairs three)
qed

text \<open>
  C3, as amended. For a POST to \<^verbatim>\<open>/api/next_question\<close> whose body is
  \<^verbatim>\<open>{"history": []}\<close>, the user context is the header line
  \<^verbatim>\<open>Q&A History so far:\<close> followed by the sentence
  \<^verbatim>\<open>No questions asked yet. This is Question 1. Ask about their current life status or
  immediate goal.\<close> and a newline.
\<close>

theorem empty_history_context:
  "map_sum id contents (question_call empty_history_request) =
     Inr (''Q&A History so far:\<newline>'' @
          ''No questions asked yet. This is Question 1. '' @
          ''Ask about their current life status or immediate goal.\<newline>'')"
  by (simp add: empty_history_request_def question_call_def question_fields_def
      question_context_def)

text \<open>
  The user context is not that sentence alone, which is what C3 states.
\<close>

theorem empty_history_context_counterexample:
  "map_sum id contents (question_call empty_history_request) \<noteq>
     Inr (''No questions asked yet. This is Question 1. '' @
          ''Ask about their current life status or immediate goal.\<newline>'')"
  by (simp add: empty_history_request_def question_call_def question_fields_def
      question_context_def)

text \<open>
  C4. When the call to the model client raises, \<^verbatim>\<open>/api/next_question\<close> answers with
  status 500 and the JSON body \<^verbatim>\<open>{"error": "Failed to calculate next question."}\<close>, and
  \<^verbatim>\<open>/api/generate_report\<close> with status 500 and
  \<^verbatim>\<open>{"error": "Failed to generate report."}\<close>. The client is called once, the
  exception goes to the log only, and the response does not depend on it. The same
  response is given when the client was never constructed.
\<close>

theorem upstream_failure_fixed_response:
  "(question_call r = Inr c \<longrightarrow> g c = Inl e \<longrightarrow>
      next_question (Some g) r =
        ([GenerateContent c, LogError ''Error in Gemini next_question: '' e False],
         Inr \<lparr>status = 500, mimetype = ''application/json'',
              body = Jsonify (JObj [(''error'', JStr ''Failed to calculate next question.'')])\<rparr>)) \<and>
   (report_call r = Inr c' \<longrightarrow> g c' = Inl e' \<longrightarrow>
      generate_report (Some g) r =
        ([GenerateContent c', LogError ''Error generating report: '' e' True],
         Inr \<lparr>status = 500, mimetype = ''application/json'',
              body = Jsonify (JObj [(''error'', JStr ''Failed to generate report.'')])\<rparr>)) \<and>
   (question_call r = Inr c \<longrightarrow>
      next_question None r =
        ([LogError ''Error in Gemini next_question: '' AttributeError False],
         Inr \<lparr>status = 500, mimetype = ''application/json'',
              body = Jsonify (JObj [(''error'', JStr ''Failed to calculate next question.'')])\<rparr>)) \<and>
   (report_call r = Inr c' \<longrightarrow>
      generate_report None r =
        ([LogError ''Error generating report: '' AttributeError True],
         Inr \<lparr>status = 500, mimetype = ''application/json'',
              body = Jsonify (JObj [(''error'', JStr ''Failed to generate report.'')])\<rparr>))"
  by (simp add: next_question_def generate_report_def generate_content_def)

theorem upstream_failure_fixed_response_witness:
  "(\<exists>c. question_call empty_history_request = Inr c \<and> failing_client c = Inl (ClientError ''503 UNAVAILABLE'')) \<and>
   (\<exists>c. report_call empty_history_request = Inr c \<and> failing_client c = Inl (ClientError ''503 UNAVAILABLE'')) \<and>
   snd (next_question (Some failing_client) empty_history_request) =
     Inr \<lparr>status = 500, mimetype = ''application/json'',
          body = Jsonify (JObj [(''error'', JStr ''Failed to calculate next question.'')])\<rparr> \<and>
   snd (generate_report (Some failing_client) empty_history_request) =
     Inr \<lparr>status = 500, mimetype = ''application/json'',
          body = Jsonify (JObj [(''error'', JStr ''Failed to generate report.'')])\<rparr>"
proof -
  obtain c where c: "question_call empty_history_request = Inr c"
    by (simp add: empty_history_request_def question_call_def question_fields_def
        question_context_def)
  obtain c' where c': "report_call empty_history_request = Inr c'"
    by (simp add: empty_history_request_def report_call_def report_fields_def
        report_context_def)
  have f: "failing_client c = Inl (ClientError ''503 UNAVAILABLE'')"
    and f': "failing_client c' = Inl (ClientError ''503 UNAVAILABLE'')"
    by (simp_all add: failing_client_def)
  from upstream_failure_fixed_response
    [of empty_history_request c failing_client "ClientError ''503 UNAVAILABLE''" c'
        "ClientError ''503 UNAVAILABLE''"]
  show ?thesis using c c' f f' by simp
qed

text \<open>
  C5, as amended. For every request to either endpoint that is not declared as JSON,
  the handler raises \<^verbatim>\<open>BadRequest\<close> (HTTP 400) with the message
  \<^verbatim>\<open>Invalid request format. Expected JSON.\<close> and calls no model. When the request is
  declared as JSON and \<^verbatim>\<open>get_json\<close> raises, that exception leaves the handler as it is.
\<close>

theorem non_json_bad_request:
  "(\<not> is_json r \<longrightarrow>
      next_question client r = ([], Inl (BadRequest ''Invalid request format. Expected JSON.'')) \<and>
      generate_report client r = ([], Inl (BadRequest ''Invalid request format. Expected JSON.''))) \<and>
   (is_json r \<longrightarrow> get_json r = Inl e \<longrightarrow>
      next_question client r = ([], Inl e) \<and> generate_report client r = ([], Inl e))"
  by (simp add: next_question_def generate_report_def question_call_def report_call_def)

theorem non_json_bad_request_witness:
  "\<not> is_json plain_text_request \<and>
   next_question (Some failing_client) plain_text_request =
     ([], Inl (BadRequest ''Invalid request format. Expected JSON.'')) \<and>
   generate_report (Some failing_client) plain_text_request =
     ([], Inl (BadRequest ''Invalid request format. Expected JSON.'')) \<and>
   is_json \<lparr>is_json = True, get_json = Inl (BadRequest ''Failed to decode JSON object'')\<rparr> \<and>
   next_question (Some failing_client)
     \<lparr>is_json = True, get_json = Inl (BadRequest ''Failed to decode JSON object'')\<rparr> =
     ([], Inl (BadRequest ''Failed to decode JSON object''))"
proof -
  have n: "\<not> is_json plain_text_request"
    by (simp add: plain_text_request_def)
  let ?m = "\<lparr>is_json = True, get_json = Inl (BadRequest ''Failed to decode JSON object'')\<rparr>"
  have j: "is_json ?m" and b: "get_json ?m = Inl (BadRequest ''Failed to decode JSON object'')"
    by simp_all
  from non_json_bad_request [of plain_text_request "Some failing_client"]
    non_json_bad_request [of ?m "Some failing_client" "BadRequest ''Failed to decode JSON object''"]
  show ?thesis using n j b by simp
qed

text \<open>
  The message is not \<^verbatim>\<open>Invalid request format\<close>, which is what C5 states.
\<close>

theorem invalid_format_message_counterexample:
  "snd (next_question None plain_text_request) \<noteq> Inl (BadRequest ''Invalid request format'') \<and>
   snd (generate_report None plain_text_request) \<noteq> Inl (BadRequest ''Invalid request format'')"
  by (simp add: plain_text_request_def next_question_def generate_report_def
      question_call_def report_call_def)

text \<open>
  C6, as amended. When the model client answers, \<^verbatim>\<open>/api/next_question\<close> returns its
  text unchanged, with status 200 and the JSON content type. The schema sent with the
  call is \<^verbatim>\<open>QuestionResponse\<close>; an object has its shape exactly when its
  \<^verbatim>\<open>question\<close> is a string and its \<^verbatim>\<open>options\<close> are a list of strings, of any length.
\<close>

theorem question_response_verbatim:
  "(question_call r = Inr c \<longrightarrow> g c = Inr text \<longrightarrow>
      response_schema (config c) = Some QuestionResponse \<and>
      next_question (Some g) r =
        ([GenerateContent c],
         Inr \<lparr>status = 200, mimetype = ''application/json'', body = Raw text\<rparr>)) \<and>
   validates QuestionResponse (JObj kvs) =
     ((\<exists>q. map_of kvs ''question'' = Some (JStr q)) \<and>
      (\<exists>os. map_of kvs ''options'' = Some (JArr os) \<and> list_all (has_type PyStr) os)) \<and>
   validates QuestionResponse
     (JObj [(''question'', JStr q), (''options'', JArr (map JStr os))])"
proof (intro conjI impI)
  assume c: "question_call r = Inr c" and t: "g c = Inr text"
  from c show "response_schema (config c) = Some QuestionResponse"
    by (auto simp: question_call_def split: if_splits sum.splits)
  from c t show "next_question (Some g) r =
        ([GenerateContent c],
         Inr \<lparr>status = 200, mimetype = ''application/json'', body = Raw text\<rparr>)"
    by (simp add: next_question_def generate_content_def)
next
  show "validates QuestionResponse (JObj kvs) =
     ((\<exists>q. map_of kvs ''question'' = Some (JStr q)) \<and>
      (\<exists>os. map_of kvs ''options'' = Some (JArr os) \<and> list_all (has_type PyStr) os))"
    by (rule validates_QuestionResponse)
next
  have "list_all (has_type PyStr) (map JStr os)"
    by (induction os) simp_all
  then show "validates QuestionResponse
     (JObj [(''question'', JStr q), (''options'', JArr (map JStr os))])"
    by (simp add: validates_QuestionResponse)
qed

theorem question_response_verbatim_witness:
  "(\<exists>c. question_call empty_history_request = Inr c) \<and>
   snd (next_question (Some five_options_client) empty_history_request) =
     Inr \<lparr>status = 200, mimetype = ''application/json'',
          body = Raw ''{\"question\": \"Goal?\", \"options\": [\"a\", \"b\", \"c\", \"d\", \"e\"]}''\<rparr> \<and>
   validates QuestionResponse
     (JObj [(''question'', JStr ''Goal?''),
            (''options'', JArr [JStr ''a'', JStr ''b'', JStr ''c'', JStr ''d'', JStr ''e''])]) \<and>
   \<not> three_to_four_options
     (JObj [(''question'', JStr ''Goal?''),
            (''options'', JArr [JStr ''a'', JStr ''b'', JStr ''c'', JStr ''d'', JStr ''e''])])"
proof -
  obtain c where c: "question_call empty_history_request = Inr c"
    by (simp add: empty_history_request_def question_call_def question_fields_def
        question_context_def)
  have t: "five_options_client c =
      Inr ''{\"question\": \"Goal?\", \"options\": [\"a\", \"b\", \"c\", \"d\", \"e\"]}''"
    by (simp add: five_options_client_def)
  have n: "\<not> three_to_four_options
     (JObj [(''question'', JStr ''Goal?''),
            (''options'', JArr [JStr ''a'', JStr ''b'', JStr ''c'', JStr ''d'', JStr ''e''])])"
    by (simp add: three_to_four_options_def)
  from question_response_verbatim
    [of empty_history_request c five_options_client
        "''{\"question\": \"Goal?\", \"options\": [\"a\", \"b\", \"c\", \"d\", \"e\"]}''"
        "[]" "''Goal?''" "[''a'', ''b'', ''c'', ''d'', ''e'']"]
  show ?thesis using c t n by simp
qed

text \<open>
  The schema accepts a question without options, which is not a sequence of three to
  four strings as C6 states.
\<close>

theorem schema_options_unbounded_counterexample:
  "validates QuestionResponse no_options \<and> \<not> three_to_four_options no_options"
  by (simp add: validates_def QuestionResponse_def within_bounds_def no_options_def
      three_to_four_options_def)

text \<open>
  C7. The two endpoints pass distinct model identifiers to the model client: every
  call of \<^verbatim>\<open>/api/next_question\<close> names \<^verbatim>\<open>gemini-2.5-flash\<close> (the faster variant), every
  call of \<^verbatim>\<open>/api/generate_report\<close> names \<^verbatim>\<open>MODEL_NAME\<close>, which is
  \<^verbatim>\<open>gemini-2.5-pro\<close> (the higher-quality variant).
\<close>

theorem endpoints_distinct_models:
  assumes "GenerateContent c \<in> set (fst (next_question client r))"
    and "GenerateContent c' \<in> set (fst (generate_report client' r'))"
  shows "model c = ''gemini-2.5-flash'' \<and> model c' = MODEL_NAME \<and>
         MODEL_NAME = ''gemini-2.5-pro'' \<and> model c \<noteq> model c'"
proof -
  have q: "model c = ''gemini-2.5-flash''"
    by (rule question_call_model [OF next_question_sent [OF assms(1)]])
  have p: "model c' = MODEL_NAME"
    by (rule report_call_model [OF generate_report_sent [OF assms(2)]])
  show ?thesis by (simp add: q p MODEL_NAME_def)
qed

theorem endpoints_distinct_models_witness:
  "\<exists>c c'. GenerateContent c \<in> set (fst (next_question (Some failing_client) empty_history_request)) \<and>
          GenerateContent c' \<in> set (fst (generate_report (Some failing_client) empty_history_request)) \<and>
          model c = ''gemini-2.5-flash'' \<and> model c' = ''gemini-2.5-pro'' \<and> model c \<noteq> model c'"
proof -
  obtain c where c: "question_call empty_history_request = Inr c"
    by (simp add: empty_history_request_def question_call_def question_fields_def
        question_context_def)
  obtain c' where c': "report_call empty_history_request = Inr c'"
    by (simp add: empty_history_request_def report_call_def report_fields_def
        report_context_def)
  have s: "GenerateContent c \<in> set (fst (next_question (Some failing_client) empty_history_request))"
    by (simp add: next_question_def generate_content_def c failing_client_def)
  have s': "GenerateContent c' \<in> set (fst (generate_report (Some failing_client) empty_history_request))"
    by (simp add: generate_report_def generate_content_def c' failing_client_def)
  from endpoints_distinct_models [OF s s'] s s' show ?thesis
    by auto
qed

text \<open>
  C8, as amended. For every JSON request to either endpoint whose history is a list in
  which the first item that is not a dict with both keys is a dict lacking the
  \<^verbatim>\<open>question\<close> or the \<^verbatim>\<open>answer\<close> key, building the user context raises \<^verbatim>\<open>KeyError\<close> for
  the first key that item lacks, before the \<^verbatim>\<open>try\<close> block: the exception leaves the
  handler, no model call is made, and the caller gets neither the 400 error nor the fixed
  500 message. When that first item is not a dict, the exception is \<^verbatim>\<open>TypeError\<close>, with
  the same outcome.
\<close>

theorem missing_key_uncaught:
  assumes "is_json r" and "get_json r = Inr (JObj kvs)"
    and "map_of kvs ''history'' = Some (JArr (good @ item # rest))"
    and "list_all qa_item good" and "\<not> qa_item item"
  shows "(is_dict item \<longrightarrow>
            next_question client r = ([], Inl (KeyError (missing_key item))) \<and>
            generate_report client r = ([], Inl (KeyError (missing_key item)))) \<and>
         (\<not> is_dict item \<longrightarrow>
            next_question client r = ([], Inl TypeError) \<and>
            generate_report client r = ([], Inl TypeError))"
proof -
  let ?e = "if is_dict item then KeyError (missing_key item) else TypeError"
  have l: "\<And>ctx. qa_loop ctx (good @ item # rest) = Inl ?e"
    by (rule qa_loop_first_bad [OF assms(4,5)])
  have q: "question_call r = Inl ?e"
    using assms(1-3)
    by (simp add: question_call_def question_fields_dict question_context_def l)
  have p: "report_call r = Inl ?e"
    using assms(1-3)
    by (simp add: report_call_def report_fields_dict report_context_def l)
  have "next_question client r = ([], Inl ?e)"
    by (simp add: next_question_def q)
  moreover have "generate_report client r = ([], Inl ?e)"
    by (simp add: generate_report_def p)
  ultimately show ?thesis by simp
qed

theorem missing_key_uncaught_witness:
  "list_all qa_item [hd unanswered] \<and>
   is_dict (unanswered ! 1) \<and> \<not> qa_item (unanswered ! 1) \<and>
   next_question (Some failing_client)
     \<lparr>is_json = True, get_json = Inr (JObj [(''history'', JArr unanswered)])\<rparr> =
     ([], Inl (KeyError ''answer'')) \<and>
   generate_report (Some failing_client)
     \<lparr>is_json = True, get_json = Inr (JObj [(''history'', JArr unanswered)])\<rparr> =
     ([], Inl (KeyError ''answer'')) \<and>
   \<not> is_dict (text_item ! 1) \<and> \<not> qa_item (text_item ! 1) \<and>
   next_question (Some failing_client)
     \<lparr>is_json = True, get_json = Inr (JObj [(''history'', JArr text_item)])\<rparr> =
     ([], Inl TypeError) \<and>
   generate_report (Some failing_client)
     \<lparr>is_json = True, get_json = Inr (JObj [(''history'', JArr text_item)])\<rparr> =
     ([], Inl TypeError)"
proof -
  let ?good = "[JObj [(''question'', JStr ''Where have you studied?''), (''answer'', JStr ''Pune'')]]"
  let ?item = "JObj [(''question'', JStr ''Current salary?'')]"
  let ?r = "\<lparr>is_json = True, get_json = Inr (JObj [(''history'', JArr unanswered)])\<rparr>"
  let ?r' = "\<lparr>is_json = True, get_json = Inr (JObj [(''history'', JArr text_item)])\<rparr>"
  have u: "unanswered = ?good @ ?item # [JInt 5]"
    and t: "text_item = ?good @ JStr ''Current salary?'' # []"
    by (simp_all add: unanswered_def text_item_def)
  have g: "list_all qa_item ?good" and n: "\<not> qa_item ?item"
    and n': "\<not> qa_item (JStr ''Current salary?'')"
    by simp_all
  have h: "map_of [(''history'', JArr unanswered)] ''history'' = Some (JArr (?good @ ?item # [JInt 5]))"
    and h': "map_of [(''history'', JArr text_item)] ''history'' =
               Some (JArr (?good @ JStr ''Current salary?'' # []))"
    by (simp_all add: u t)
  from missing_key_uncaught [of ?r _ ?good ?item "[JInt 5]" "Some failing_client", OF _ _ h g n]
    missing_key_uncaught
      [of ?r' _ ?good "JStr ''Current salary?''" "[]" "Some failing_client", OF _ _ h' g n']
  show ?thesis
    by (simp add: u t)
qed

text \<open>
  A history that holds an item lacking both keys after an item that is not a dict: the
  exception is \<^verbatim>\<open>TypeError\<close>, not the \<^verbatim>\<open>KeyError\<close> that C8 states.
\<close>

theorem missing_key_uncaught_counterexample:
  "JObj [] \<in> set null_then_empty \<and> is_dict (JObj []) \<and> \<not> qa_item (JObj []) \<and>
   next_question (Some failing_client)
     \<lparr>is_json = True, get_json = Inr (JObj [(''history'', JArr null_then_empty)])\<rparr> =
     ([], Inl TypeError) \<and>
   generate_report (Some failing_client)
     \<lparr>is_json = True, get_json = Inr (JObj [(''history'', JArr null_then_empty)])\<rparr> =
     ([], Inl TypeError)"
  by (simp add: null_then_empty_def next_question_def generate_report_def question_call_def
      report_call_def question_fields_def report_fields_def question_context_def
      report_context_def)

text \<open>
  C9. For every JSON request to either endpoint whose body parses to a value that is
  not an object (a list, a number, null), reading the fields raises
  \<^verbatim>\<open>AttributeError\<close>, which leaves the handler: no model call is made, and the caller
  gets neither the 400 error nor the fixed 500 message.
\<close>

theorem non_object_body_uncaught:
  assumes "is_json r" and "get_json r = Inr v" and "\<not> is_dict v"
  shows "next_question client r = ([], Inl AttributeError) \<and>
         generate_report client r = ([], Inl AttributeError)"
  using assms(1,2) fields_not_dict [OF assms(3)]
  by (simp add: next_question_def generate_report_def question_call_def report_call_def)

theorem non_object_body_uncaught_witness:
  "\<not> is_dict (JArr [JInt 1, JInt 2]) \<and>
   next_question (Some failing_client) \<lparr>is_json = True, get_json = Inr (JArr [JInt 1, JInt 2])\<rparr> =
     ([], Inl AttributeError) \<and>
   generate_report (Some failing_client) \<lparr>is_json = True, get_json = Inr (JArr [JInt 1, JInt 2])\<rparr> =
     ([], Inl AttributeError) \<and>
   \<not> is_dict JNull \<and>
   next_question None \<lparr>is_json = True, get_json = Inr JNull\<rparr> = ([], Inl AttributeError)"
proof -
  have a: "\<not> is_dict (JArr [JInt 1, JInt 2])" and b: "\<not> is_dict JNull" by simp_all
  from non_object_body_uncaught
      [of "\<lparr>is_json = True, get_json = Inr (JArr [JInt 1, JInt 2])\<rparr>" "JArr [JInt 1, JInt 2]"
          "Some failing_client", OF _ _ a]
    non_object_body_uncaught
      [of "\<lparr>is_json = True, get_json = Inr JNull\<rparr>" JNull None, OF _ _ b]
  show ?thesis by simp
qed

text \<open>
  C10. For every request to \<^verbatim>\<open>/api/generate_report\<close> that omits \<^verbatim>\<open>age\<close> or
  \<^verbatim>\<open>gender\<close>, no default is put in its place: the field is \<^verbatim>\<open>None\<close>, and the system
  prompt sent to the model client has the text \<^verbatim>\<open>None\<close> in the user-profile line
  (\<^verbatim>\<open>None years old, gender: None\<close> when both are omitted).
\<close>

theorem report_none_interpolated:
  assumes "GenerateContent c \<in> set (fst (generate_report client r))"
    and "get_json r = Inr (JObj kvs)"
  shows "(map_of kvs ''age'' = None \<longrightarrow>
            (\<exists>s. report_fields (JObj kvs) = Inr s \<and> age s = JNull) \<and>
            (\<exists>nm post. system_instruction (config c) =
               report_role @ ''The user profile: '' @ nm @
               '', None years old, gender: '' @ post)) \<and>
         (map_of kvs ''gender'' = None \<longrightarrow>
            (\<exists>s. report_fields (JObj kvs) = Inr s \<and> gender s = JNull) \<and>
            (\<exists>nm ag post. system_instruction (config c) =
               report_role @ ''The user profile: '' @ nm @ '', '' @ ag @
               '' years old, gender: None, Preferred Language: '' @ post)) \<and>
         (map_of kvs ''age'' = None \<longrightarrow> map_of kvs ''gender'' = None \<longrightarrow>
            (\<exists>nm post. system_instruction (config c) =
               report_role @ ''The user profile: '' @ nm @
               '', None years old, gender: None, Preferred Language: '' @ post))"
proof -
  from report_call_dict [OF generate_report_sent [OF assms(1)] assms(2)]
  obtain s where f: "report_fields (JObj kvs) = Inr s"
    and p: "system_instruction (config c) = report_prompt s"
    by blast
  from f have a: "age s = (case map_of kvs ''age'' of None \<Rightarrow> JNull | Some v \<Rightarrow> v)"
    and g: "gender s = (case map_of kvs ''gender'' of None \<Rightarrow> JNull | Some v \<Rightarrow> v)"
    by (auto simp: report_fields_dict)
  let ?tail = "''.\<newline>    \<newline>'' @ report_rules @ py_str (language s) @
               ''.\<newline>\<newline>'' @ report_layout"
  have 1: "\<exists>nm post. system_instruction (config c) =
               report_role @ ''The user profile: '' @ nm @
               '', None years old, gender: '' @ post" if "map_of kvs ''age'' = None"
  proof (intro exI)
    show "system_instruction (config c) =
            report_role @ ''The user profile: '' @ py_str (name s) @
            '', None years old, gender: '' @
            (py_str (gender s) @ '', Preferred Language: '' @ py_str (language s) @ ?tail)"
      using that by (simp add: p a report_prompt_def)
  qed
  have 2: "\<exists>nm ag post. system_instruction (config c) =
               report_role @ ''The user profile: '' @ nm @ '', '' @ ag @
               '' years old, gender: None, Preferred Language: '' @ post"
    if "map_of kvs ''gender'' = None"
  proof (intro exI)
    show "system_instruction (config c) =
            report_role @ ''The user profile: '' @ py_str (name s) @ '', '' @ py_str (age s) @
            '' years old, gender: None, Preferred Language: '' @
            (py_str (language s) @ ?tail)"
      using that by (simp add: p g report_prompt_def)
  qed
  have 3: "\<exists>nm post. system_instruction (config c) =
               report_role @ ''The user profile: '' @ nm @
               '', None years old, gender: None, Preferred Language: '' @ post"
    if "map_of kvs ''age'' = None" and "map_of kvs ''gender'' = None"
  proof (intro exI)
    show "system_instruction (config c) =
            report_role @ ''The user profile: '' @ py_str (name s) @
            '', None years old, gender: None, Preferred Language: '' @
            (py_str (language s) @ ?tail)"
      using that by (simp add: p a g report_prompt_def)
  qed
  from f a g 1 2 3 show ?thesis by simp
qed

theorem report_none_interpolated_witness:
  "\<exists>c post.
     GenerateContent c \<in> set (fst (generate_report (Some failing_client) name_only_request)) \<and>
     get_json name_only_request = Inr (JObj [(''name'', JStr ''Asha'')]) \<and>
     map_of [(''name'', JStr ''Asha'')] ''age'' = None \<and>
     map_of [(''name'', JStr ''Asha'')] ''gender'' = None \<and>
     system_instruction (config c) =
       report_role @
       ''The user profile: Asha, None years old, gender: None, Preferred Language: English.'' @
       post"
proof -
  obtain c where c: "report_call name_only_request = Inr c"
    and i: "system_instruction (config c) =
       report_role @
       ''The user profile: Asha, None years old, gender: None, Preferred Language: English.'' @
       (''\<newline>    \<newline>'' @ report_rules @ ''English.\<newline>\<newline>'' @ report_layout)"
    by (simp add: name_only_request_def report_call_def report_fields_def report_context_def
        report_prompt_def)
  have s: "GenerateContent c \<in> set (fst (generate_report (Some failing_client) name_only_request))"
    by (simp add: generate_report_def generate_content_def c failing_client_def)
  have j: "get_json name_only_request = Inr (JObj [(''name'', JStr ''Asha'')])"
    by (simp add: name_only_request_def)
  have m: "map_of [(''name'', JStr ''Asha'')] ''age'' = None"
    "map_of [(''name'', JStr ''Asha'')] ''gender'' = None"
    by simp_all
  from report_none_interpolated [OF s j] m s j i show ?thesis
    by blast
qed

end
